theory Spec2Isabelle
  imports Complex_Main
begin

section \<open>Music genre identifier: the embedding of \<^verbatim>\<open>main.py\<close>\<close>

text \<open>
  The program reads an audio file through librosa, averages four spectral statistics
  (centroid, rolloff, bandwidth, contrast) and maps them to a genre name through a chain
  of threshold tests (\<^verbatim>\<open>predict_genre\<close>).

  Numbers. The four features are Python floats (the results of \<^verbatim>\<open>np.mean\<close>).
  \<^verbatim>\<open>predict_genre\<close> only compares them with integer constants, and on finite floats
  these comparisons are the comparisons of the numbers the floats denote. The features are
  therefore modelled as \<^typ>\<open>real\<close>: every finite float is a real number. The values
  \<^verbatim>\<open>nan\<close> and \<^verbatim>\<open>inf\<close> are outside this model.

  Errors. A Python exception is a value of \<open>exn\<close>, and a function that may raise returns
  \<open>exn + 'a\<close> with \<open>Inl\<close> for the exception.
\<close>

subsection \<open>Exceptions\<close>

datatype exn =
    UnpackError
      \<comment> \<open>the \<^verbatim>\<open>ValueError\<close> of \<^verbatim>\<open>c, r, b, ct = features\<close> when \<^verbatim>\<open>features\<close>
          does not hold exactly four values\<close>
  | LibraryError string
      \<comment> \<open>an exception raised inside a librosa, numpy, matplotlib or PIL call, with its
          message\<close>

subsection \<open>Genre prediction (\<^verbatim>\<open>predict_genre\<close>, lines 10 to 18)\<close>

text \<open>
  \<^verbatim>\<open>
  def predict_genre(features):
      c, r, b, ct = features
      if c < 1500 and r < 3000: return "Classical"
      if 1500 <= c < 2500 and ct < 25: return "Jazz"
      if 2200 <= c < 4200 and 4000 <= r < 7000 and ct < 22 and b > 1500: return "Phonk"
      if c >= 3500 and ct >= 25 and r >= 5000: return "Hip-Hop / Rap"
      if c >= 5200 or r > 7000: return "Rock"
      if 2500 <= c < 3800 and r < 6000: return "Pop"
      return "Pop"
  \<close>
  A chained comparison \<^verbatim>\<open>a <= c < b\<close> is \<^verbatim>\<open>a <= c and c < b\<close>. The argument is a
  Python list; unpacking it into four names raises unless it has exactly four elements.
\<close>

fun predict_genre :: "real list \<Rightarrow> exn + string" where
  "predict_genre [c, r, b, ct] =
     (if c < 1500 \<and> r < 3000 then Inr ''Classical''
      else if 1500 \<le> c \<and> c < 2500 \<and> ct < 25 then Inr ''Jazz''
      else if 2200 \<le> c \<and> c < 4200 \<and> 4000 \<le> r \<and> r < 7000 \<and> ct < 22 \<and> b > 1500
        then Inr ''Phonk''
      else if c \<ge> 3500 \<and> ct \<ge> 25 \<and> r \<ge> 5000 then Inr ''Hip-Hop / Rap''
      else if c \<ge> 5200 \<or> r > 7000 then Inr ''Rock''
      else if 2500 \<le> c \<and> c < 3800 \<and> r < 6000 then Inr ''Pop''
      else Inr ''Pop'')"
| "predict_genre _ = Inl UnpackError"

text \<open>
  The six tests of the chain, each as the source line writes it, so that a statement can
  say which tests an input passes.
\<close>

definition rule1 :: "real \<Rightarrow> real \<Rightarrow> real \<Rightarrow> real \<Rightarrow> bool" where
  "rule1 c r b ct \<longleftrightarrow> c < 1500 \<and> r < 3000"

definition rule2 :: "real \<Rightarrow> real \<Rightarrow> real \<Rightarrow> real \<Rightarrow> bool" where
  "rule2 c r b ct \<longleftrightarrow> 1500 \<le> c \<and> c < 2500 \<and> ct < 25"

definition rule3 :: "real \<Rightarrow> real \<Rightarrow> real \<Rightarrow> real \<Rightarrow> bool" where
  "rule3 c r b ct \<longleftrightarrow>
     2200 \<le> c \<and> c < 4200 \<and> 4000 \<le> r \<and> r < 7000 \<and> ct < 22 \<and> b > 1500"

definition rule4 :: "real \<Rightarrow> real \<Rightarrow> real \<Rightarrow> real \<Rightarrow> bool" where
  "rule4 c r b ct \<longleftrightarrow> c \<ge> 3500 \<and> ct \<ge> 25 \<and> r \<ge> 5000"

definition rule5 :: "real \<Rightarrow> real \<Rightarrow> real \<Rightarrow> real \<Rightarrow> bool" where
  "rule5 c r b ct \<longleftrightarrow> c \<ge> 5200 \<or> r > 7000"

definition rule6 :: "real \<Rightarrow> real \<Rightarrow> real \<Rightarrow> real \<Rightarrow> bool" where
  "rule6 c r b ct \<longleftrightarrow> 2500 \<le> c \<and> c < 3800 \<and> r < 6000"

subsection \<open>Feature extraction (\<^verbatim>\<open>analyze_audio_file\<close>, lines 21 to 28)\<close>





subsection \<open>The analysis of one file (\<^verbatim>\<open>SpotifyStyleGUI.analyze_audio\<close>, lines 115 to 156)\<close>





subsection \<open>The decision table of the specification\<close>

text \<open>
  The specification gives the classifier as an ordered table of seven rows, each a
  condition on \<open>(c, r, b, t)\<close> and a label, read top to bottom, the first row whose
  condition holds giving the result. The two definitions below follow the
  specification's words, to be compared with \<open>predict_genre\<close>.
\<close>

type_synonym feature_vector = "real \<times> real \<times> real \<times> real"

definition decision_table :: "((feature_vector \<Rightarrow> bool) \<times> string) list" where
  "decision_table =
     [(\<lambda>(c, r, b, t). c < 1500 \<and> r < 3000, ''Classical''),
      (\<lambda>(c, r, b, t). 1500 \<le> c \<and> c < 2500 \<and> t < 25, ''Jazz''),
      (\<lambda>(c, r, b, t). 2200 \<le> c \<and> c < 4200 \<and> 4000 \<le> r \<and> r < 7000 \<and> t < 22 \<and> b > 1500,
         ''Phonk''),
      (\<lambda>(c, r, b, t). c \<ge> 3500 \<and> t \<ge> 25 \<and> r \<ge> 5000, ''Hip-Hop / Rap''),
      (\<lambda>(c, r, b, t). c \<ge> 5200 \<or> r > 7000, ''Rock''),
      (\<lambda>(c, r, b, t). 2500 \<le> c \<and> c < 3800 \<and> r < 6000, ''Pop''),
      (\<lambda>(c, r, b, t). True, ''Pop'')]"

fun first_match :: "(('a \<Rightarrow> bool) \<times> 'l) list \<Rightarrow> 'a \<Rightarrow> 'l option" where
  "first_match [] x = None"
| "first_match ((p, l) # rows) x = (if p x then Some l else first_match rows x)"

text \<open>The closed set of genre labels of the specification.\<close>

definition genre_labels :: "string list" where
  "genre_labels = [''Classical'', ''Jazz'', ''Phonk'', ''Hip-Hop / Rap'', ''Rock'', ''Pop'']"

text \<open>
  The chain with its sixth test removed: the inputs that test caught reach the final
  \<^verbatim>\<open>return "Pop"\<close>.
\<close>

fun predict_genre_without_rule6 :: "real list \<Rightarrow> exn + string" where
  "predict_genre_without_rule6 [c, r, b, ct] =
     (if c < 1500 \<and> r < 3000 then Inr ''Classical''
      else if 1500 \<le> c \<and> c < 2500 \<and> ct < 25 then Inr ''Jazz''
      else if 2200 \<le> c \<and> c < 4200 \<and> 4000 \<le> r \<and> r < 7000 \<and> ct < 22 \<and> b > 1500
        then Inr ''Phonk''
      else if c \<ge> 3500 \<and> ct \<ge> 25 \<and> r \<ge> 5000 then Inr ''Hip-Hop / Rap''
      else if c \<ge> 5200 \<or> r > 7000 then Inr ''Rock''
      else Inr ''Pop'')"
| "predict_genre_without_rule6 _ = Inl UnpackError"

section \<open>Properties of the classifier\<close>

text \<open>The chain of \<open>predict_genre\<close>, written with the six named tests.\<close>

lemma predict_genre_rules:
  "predict_genre [c, r, b, ct] =
     (if rule1 c r b ct then Inr ''Classical''
      else if rule2 c r b ct then Inr ''Jazz''
      else if rule3 c r b ct then Inr ''Phonk''
      else if rule4 c r b ct then Inr ''Hip-Hop / Rap''
      else if rule5 c r b ct then Inr ''Rock''
      else Inr ''Pop'')"
  by (simp add: rule1_def rule2_def rule3_def rule4_def rule5_def)


text \<open>
  C1. For every feature quadruple \<open>(c, r, b, t)\<close>, the label \<open>predict_genre\<close> returns is
  the label of the first row of the specification's seven-row decision table whose
  condition holds, the rows read in order 1 to 7 with the comparison operators as the
  table writes them; row 7 has no condition and gives Pop.
\<close>

theorem predict_genre_is_first_match:
  "map_option Inr (first_match decision_table (c, r, b, t)) = Some (predict_genre [c, r, b, t])"
  by (simp add: decision_table_def)

text \<open>
  C6. At the boundary of the first test, \<open>predict_genre\<close> applied to
  \<open>(1500, 2999, 0, 0)\<close> does not return Classical, since the test is the strict
  \<open>c < 1500\<close>, and applied to \<open>(1499.9, 2999, 0, 0)\<close> it returns Classical. The third
  conjunct is the same fact at the double-precision float nearest to \<open>1499.9\<close>, which is
  \<open>3298314981002445 / 2 ^ 41\<close>.
\<close>

theorem predict_genre_centroid_boundary:
  "predict_genre [1500, 2999, 0, 0] \<noteq> Inr ''Classical'' \<and>
   predict_genre [14999 / 10, 2999, 0, 0] = Inr ''Classical'' \<and>
   predict_genre [3298314981002445 / 2199023255552, 2999, 0, 0] = Inr ''Classical''"
  by simp

text \<open>
  C2. \<open>predict_genre\<close> is total on feature quadruples: for every four values (the finite
  non-negative ones among them) it returns, without raising, exactly one label, which is
  non-empty and one of Classical, Jazz, Phonk, Hip-Hop / Rap, Rock, Pop; and when none of
  the six tests holds the label is Pop.
\<close>

theorem predict_genre_total:
  "(\<exists>l. predict_genre [c, r, b, ct] = Inr l \<and> l \<in> set genre_labels \<and> l \<noteq> []) \<and>
   (\<not> rule1 c r b ct \<and> \<not> rule2 c r b ct \<and> \<not> rule3 c r b ct \<and>
    \<not> rule4 c r b ct \<and> \<not> rule5 c r b ct \<and> \<not> rule6 c r b ct
      \<longrightarrow> predict_genre [c, r, b, ct] = Inr ''Pop'')"
  by (simp add: predict_genre_rules genre_labels_def del: predict_genre.simps)

theorem predict_genre_total_witness:
  "\<not> rule1 2600 6500 0 30 \<and> \<not> rule2 2600 6500 0 30 \<and> \<not> rule3 2600 6500 0 30 \<and>
   \<not> rule4 2600 6500 0 30 \<and> \<not> rule5 2600 6500 0 30 \<and> \<not> rule6 2600 6500 0 30 \<and>
   predict_genre [2600, 6500, 0, 30] = Inr ''Pop'' \<and> ''Pop'' \<in> set genre_labels"
  using predict_genre_total [of 2600 6500 0 30]
  by (simp add: rule1_def rule2_def rule3_def rule4_def rule5_def rule6_def genre_labels_def)

text \<open>
  C4, as the specification states it: some feature vector satisfies both the first test
  (\<open>c < 1500\<close> and \<open>r < 3000\<close>) and the sixth (\<open>2500 \<le> c < 3800\<close> and \<open>r < 6000\<close>), and
  every such vector is classified Classical. No such vector exists: the first test needs
  \<open>c < 1500\<close> and the sixth \<open>2500 \<le> c\<close>.
\<close>

theorem rule1_rule6_disjoint:
  "\<not> (\<exists>c r b ct. rule1 c r b ct \<and> rule6 c r b ct)"
  by (simp add: rule1_def rule6_def)

text \<open>
  C4, amended: no feature vector satisfies both the first and the sixth test, and every
  vector that satisfies the first test is classified Classical.
\<close>

theorem rule1_gives_classical:
  "rule1 c r b ct \<Longrightarrow> \<not> rule6 c r b ct \<and> predict_genre [c, r, b, ct] = Inr ''Classical''"
  by (simp add: rule1_def rule6_def)

theorem rule1_gives_classical_witness:
  "rule1 1000 2000 0 0 \<and> \<not> rule6 1000 2000 0 0 \<and>
   predict_genre [1000, 2000, 0, 0] = Inr ''Classical''"
  using rule1_gives_classical [of 1000 2000 0 0]
  by (simp add: rule1_def)

text \<open>
  C5, as the specification states it: \<open>predict_genre\<close> applied to
  \<open>(c = 3000, r = 100, b = 0, t = 0)\<close> returns Pop and the input passes none of the
  tests 1 to 6. It does pass the sixth test (\<open>2500 \<le> 3000 < 3800\<close> and \<open>100 < 6000\<close>), so
  the statement is false.
\<close>

theorem pop_example_not_fallthrough:
  "\<not> (predict_genre [3000, 100, 0, 0] = Inr ''Pop'' \<and>
      \<not> rule1 3000 100 0 0 \<and> \<not> rule2 3000 100 0 0 \<and> \<not> rule3 3000 100 0 0 \<and>
      \<not> rule4 3000 100 0 0 \<and> \<not> rule5 3000 100 0 0 \<and> \<not> rule6 3000 100 0 0)"
  by (simp add: rule6_def)

text \<open>
  C5, amended: \<open>predict_genre\<close> applied to \<open>(c = 3000, r = 100, b = 0, t = 0)\<close> returns
  Pop; the input passes none of the tests 1 to 5 and passes the sixth, whose
  \<^verbatim>\<open>return "Pop"\<close> gives the result.
\<close>

theorem pop_example_by_rule6:
  "predict_genre [3000, 100, 0, 0] = Inr ''Pop'' \<and>
   \<not> rule1 3000 100 0 0 \<and> \<not> rule2 3000 100 0 0 \<and> \<not> rule3 3000 100 0 0 \<and>
   \<not> rule4 3000 100 0 0 \<and> \<not> rule5 3000 100 0 0 \<and> rule6 3000 100 0 0"
  by (simp add: rule1_def rule2_def rule3_def rule4_def rule5_def rule6_def)

text \<open>
  C9. The sixth test is redundant: the chain without it returns, on every argument, what
  \<open>predict_genre\<close> returns, since the sixth test and the final return both give Pop.
\<close>

theorem rule6_redundant:
  "predict_genre_without_rule6 features = predict_genre features"
  by (induction features rule: predict_genre.induct) simp_all

text \<open>
  C10. The second test shadows part of the third: every feature quadruple that satisfies
  the third (Phonk) test and has \<open>c < 2500\<close> is classified Jazz, not Phonk.
\<close>

theorem rule2_shadows_rule3:
  "rule3 c r b ct \<Longrightarrow> c < 2500 \<Longrightarrow>
     predict_genre [c, r, b, ct] = Inr ''Jazz'' \<and> predict_genre [c, r, b, ct] \<noteq> Inr ''Phonk''"
  by (simp add: rule3_def)

theorem rule2_shadows_rule3_witness:
  "rule3 2300 5000 2000 10 \<and> (2300 :: real) < 2500 \<and>
   predict_genre [2300, 5000, 2000, 10] = Inr ''Jazz''"
  using rule2_shadows_rule3 [of 2300 5000 2000 10]
  by (simp add: rule3_def)

section \<open>Properties of the analysis\<close>









end
